theory Spec2Isabelle
  imports Complex_Main "HOL-Library.Sublist"
begin

section \<open>Python strings\<close>

text \<open>
  A Python \<open>str\<close> is modelled as a \<open>string\<close>. The texts the bot handles (coin ids,
  currency codes, selection tokens) are ASCII; the four pictographs of the detail message
  are written as their UTF-8 bytes. The case conversions below are those of \<open>str.upper\<close>,
  \<open>str.lower\<close> and \<open>str.capitalize\<close> on ASCII text and leave every other byte as it is.
\<close>

definition uppercase :: string where
  "uppercase = ''ABCDEFGHIJKLMNOPQRSTUVWXYZ''"

definition lowercase :: string where
  "lowercase = ''abcdefghijklmnopqrstuvwxyz''"

definition upper_char :: "char \<Rightarrow> char" where
  "upper_char c = (case map_of (zip lowercase uppercase) c of Some u \<Rightarrow> u | None \<Rightarrow> c)"

definition lower_char :: "char \<Rightarrow> char" where
  "lower_char c = (case map_of (zip uppercase lowercase) c of Some l \<Rightarrow> l | None \<Rightarrow> c)"

definition upper :: "string \<Rightarrow> string" where
  "upper s = map upper_char s"

definition lower :: "string \<Rightarrow> string" where
  "lower s = map lower_char s"

fun capitalize :: "string \<Rightarrow> string" where
  "capitalize [] = []"
| "capitalize (c # cs) = upper_char c # lower cs"

definition startswith :: "string \<Rightarrow> string \<Rightarrow> bool" where
  "startswith s p = prefix p s"

text \<open>\<open>s.split(sep)\<close> for a one-character separator: every separator cuts, so the
  result always has one field more than there are separators in \<open>s\<close>.\<close>

fun split :: "char \<Rightarrow> string \<Rightarrow> string list" where
  "split sep [] = [[]]"
| "split sep (c # cs) =
     (if c = sep then [] # split sep cs
      else (case split sep cs of
              [] \<Rightarrow> [[c]]
            | f # fs \<Rightarrow> (c # f) # fs))"

text \<open>The number of places at which \<open>w\<close> occurs in \<open>s\<close>.\<close>

fun count_sub :: "string \<Rightarrow> string \<Rightarrow> nat" where
  "count_sub w [] = (if w = [] then 1 else 0)"
| "count_sub w (c # cs) = (if prefix w (c # cs) then 1 else 0) + count_sub w cs"

section \<open>Exceptions\<close>

text \<open>
  \<open>RequestException\<close> stands for \<open>requests.RequestException\<close> and the subclasses that
  \<open>requests.get\<close> and \<open>raise_for_status\<close> raise (connection errors, timeouts,
  \<open>HTTPError\<close>). \<open>JSONDecodeError\<close> is \<open>requests.exceptions.JSONDecodeError\<close>, the subclass
  of \<open>RequestException\<close> that \<open>Response.json\<close> raises from requests 2.27 on. The other
  constructors are the built-in exceptions of the same names.
\<close>

datatype exn =
    RequestException
  | JSONDecodeError
  | AttributeError
  | TypeError
  | ValueError
  | IndexError
  | OverflowError
  | RecursionError

text \<open>What \<open>except requests.RequestException\<close> catches.\<close>

fun is_request_exception :: "exn \<Rightarrow> bool" where
  "is_request_exception RequestException = True"
| "is_request_exception JSONDecodeError = True"
| "is_request_exception _ = False"

text \<open>Sequencing of two steps, the first of which may raise.\<close>

fun andthen :: "exn + 'a \<Rightarrow> ('a \<Rightarrow> exn + 'b) \<Rightarrow> exn + 'b" where
  "andthen (Inl x) f = Inl x"
| "andthen (Inr v) f = f v"

text \<open>\<open>try: ... except requests.RequestException: return dflt\<close>.\<close>

fun except_request :: "exn + 'a \<Rightarrow> 'a \<Rightarrow> exn + 'a" where
  "except_request (Inl x) dflt = (if is_request_exception x then Inr dflt else Inl x)"
| "except_request (Inr v) dflt = Inr v"

text \<open>\<open>xs[i]\<close> for a list and an index that is not negative.\<close>

definition index :: "'a list \<Rightarrow> nat \<Rightarrow> exn + 'a" where
  "index xs i = (if i < length xs then Inr (xs ! i) else Inl IndexError)"

section \<open>JSON values\<close>

text \<open>
  A Python \<open>float\<close>: a finite value other than \<open>-0.0\<close>, given by the rational number it
  is (\<open>Finite 0\<close> is \<open>0.0\<close>), or one of \<open>-0.0\<close>, \<open>inf\<close>, \<open>-inf\<close> and \<open>nan\<close>. Every double
  is one of these; the functions below are defined on every rational, double or not.
\<close>

datatype pyfloat = Finite rat | NegZero | PosInf | NegInf | NaN

text \<open>
  What \<open>Response.json()\<close> returns: \<open>None\<close>, a \<open>bool\<close>, an \<open>int\<close> (a JSON number written
  without fraction or exponent), a \<open>float\<close> (any other JSON number, and the literals
  \<open>NaN\<close> and \<open>Infinity\<close> that Python reads), a \<open>str\<close>, a list, or a dict, given as the list
  of its items, keys distinct.
\<close>

datatype jval =
    JNull
  | JBool bool
  | JInt int
  | JFloat pyfloat
  | JStr string
  | JArr "jval list"
  | JObj "(string \<times> jval) list"

text \<open>Python truth value, as tested by \<open>if details:\<close> and \<open>if coins:\<close>.\<close>

fun truthy :: "jval \<Rightarrow> bool" where
  "truthy JNull = False"
| "truthy (JBool b) = b"
| "truthy (JInt n) = (n \<noteq> 0)"
| "truthy (JFloat (Finite r)) = (r \<noteq> 0)"
| "truthy (JFloat NegZero) = False"
| "truthy (JFloat _) = True"
| "truthy (JStr s) = (s \<noteq> [])"
| "truthy (JArr xs) = (xs \<noteq> [])"
| "truthy (JObj kvs) = (kvs \<noteq> [])"

text \<open>\<open>d.get(key, default)\<close>: only a dict has the method.\<close>

fun get :: "jval \<Rightarrow> string \<Rightarrow> jval \<Rightarrow> exn + jval" where
  "get (JObj kvs) key dflt = Inr (case map_of kvs key of Some v \<Rightarrow> v | None \<Rightarrow> dflt)"
| "get _ key dflt = Inl AttributeError"

text \<open>
  \<open>x > 0\<close> and \<open>x < 0\<close>. A \<open>bool\<close> compares as the \<open>int\<close> 1 or 0, \<open>nan\<close> and \<open>-0.0\<close> are
  neither above nor below 0, and anything that is not a number raises a \<open>TypeError\<close>.
\<close>

fun gt0 :: "jval \<Rightarrow> exn + bool" where
  "gt0 (JInt n) = Inr (0 < n)"
| "gt0 (JBool b) = Inr b"
| "gt0 (JFloat (Finite r)) = Inr (0 < r)"
| "gt0 (JFloat PosInf) = Inr True"
| "gt0 (JFloat _) = Inr False"
| "gt0 _ = Inl TypeError"

fun lt0 :: "jval \<Rightarrow> exn + bool" where
  "lt0 (JInt n) = Inr (n < 0)"
| "lt0 (JBool b) = Inr False"
| "lt0 (JFloat (Finite r)) = Inr (r < 0)"
| "lt0 (JFloat NegInf) = Inr True"
| "lt0 (JFloat _) = Inr False"
| "lt0 _ = Inl TypeError"

section \<open>Number formatting\<close>

definition digit :: "nat \<Rightarrow> char" where
  "digit d = ''0123456789'' ! d"

fun digits :: "nat \<Rightarrow> string" where
  "digits n = (if n < 10 then [digit n] else digits (n div 10) @ [digit (n mod 10)])"

declare digits.simps [simp del]

text \<open>The thousands separator of the \<open>,\<close> format option.\<close>

fun group3 :: "string \<Rightarrow> string" where
  "group3 s =
     (if length s \<le> 3 then s
      else group3 (take (length s - 3) s) @ CHR '','' # drop (length s - 3) s)"

declare group3.simps [simp del]

text \<open>Rounding to the nearest integer, ties to even, as the float formatter rounds.\<close>

definition round_half_even :: "rat \<Rightarrow> int" where
  "round_half_even q =
     (let f = \<lfloor>q\<rfloor>; d = q - of_int f
      in if d < 1 / 2 then f
         else if 1 / 2 < d then f + 1
         else if even f then f else f + 1)"

text \<open>
  The digits of the format code \<open>f\<close> with precision \<open>p\<close> for a finite value \<open>r\<close>: sign,
  integer part (with thousands separators when \<open>grouped\<close>), and \<open>p\<close> decimals after a
  point when \<open>p > 0\<close>.
\<close>

definition fixed :: "bool \<Rightarrow> nat \<Rightarrow> rat \<Rightarrow> string" where
  "fixed grouped p r =
     (let n = nat (round_half_even (\<bar>r\<bar> * 10 ^ p));
          ip = digits (n div 10 ^ p);
          fp = digits (n mod 10 ^ p)
      in (if r < 0 then ''-'' else '''')
         @ (if grouped then group3 ip else ip)
         @ (if p = 0 then '''' else CHR ''.'' # replicate (p - length fp) CHR ''0'' @ fp))"

text \<open>\<open>format(x, ',.<p>f')\<close> (\<open>grouped\<close>) and \<open>format(x, '.<p>f')\<close> for a float \<open>x\<close>.\<close>

fun format_float :: "bool \<Rightarrow> nat \<Rightarrow> pyfloat \<Rightarrow> string" where
  "format_float grouped p (Finite r) = fixed grouped p r"
| "format_float grouped p NegZero = ''-'' @ fixed grouped p 0"
| "format_float grouped p PosInf = ''inf''"
| "format_float grouped p NegInf = ''-inf''"
| "format_float grouped p NaN = ''nan''"

text \<open>The number of binary digits of a natural number.\<close>

fun bit_length :: "nat \<Rightarrow> nat" where
  "bit_length n = (if n = 0 then 0 else Suc (bit_length (n div 2)))"

declare bit_length.simps [simp del]

text \<open>
  \<open>float(n)\<close> for an \<open>int\<close>, which the format code \<open>f\<close> applies first: the nearest double,
  ties to even, that is \<open>n\<close> rounded to 53 binary digits; an \<open>OverflowError\<close> when that
  is beyond the largest double \<open>2 ^ 1024 - 2 ^ 971\<close>, which is from \<open>2 ^ 1024 - 2 ^ 970\<close> on.
\<close>

definition round53 :: "int \<Rightarrow> int" where
  "round53 n =
     (let e = bit_length (nat \<bar>n\<bar>) - 53;
          q = round_half_even (of_int \<bar>n\<bar> / 2 ^ e) * 2 ^ e
      in if n < 0 then - q else q)"

definition int_to_float :: "int \<Rightarrow> exn + pyfloat" where
  "int_to_float n =
     (if 2 ^ 1024 - 2 ^ 970 \<le> \<bar>n\<bar> then Inl OverflowError
      else Inr (Finite (of_int (round53 n))))"

text \<open>
  A replacement field \<open>{v:,.<p>f}\<close> of an f-string. A \<open>bool\<close> is formatted as the \<open>int\<close>
  1 or 0; \<open>str\<close> rejects the format code with a \<open>ValueError\<close>; \<open>None\<close>, lists and dicts
  reject any format string with a \<open>TypeError\<close>.
\<close>

fun format_f :: "nat \<Rightarrow> jval \<Rightarrow> exn + string" where
  "format_f p (JInt n) = andthen (int_to_float n) (\<lambda>x. Inr (format_float True p x))"
| "format_f p (JBool b) =
     andthen (int_to_float (if b then 1 else 0)) (\<lambda>x. Inr (format_float True p x))"
| "format_f p (JFloat x) = Inr (format_float True p x)"
| "format_f p (JStr s) = Inl ValueError"
| "format_f p _ = Inl TypeError"

text \<open>\<open>abs(x)\<close> of a float.\<close>

fun float_abs :: "pyfloat \<Rightarrow> pyfloat" where
  "float_abs (Finite r) = Finite \<bar>r\<bar>"
| "float_abs NegZero = Finite 0"
| "float_abs PosInf = PosInf"
| "float_abs NegInf = PosInf"
| "float_abs NaN = NaN"

text \<open>
  \<open>{abs(v):.2f}\<close>: \<open>abs\<close> of an \<open>int\<close> or \<open>bool\<close> is an \<open>int\<close>, of a \<open>float\<close> a \<open>float\<close>, and
  raises a \<open>TypeError\<close> on anything that is not a number.
\<close>

fun format_abs :: "jval \<Rightarrow> exn + string" where
  "format_abs (JInt n) = andthen (int_to_float \<bar>n\<bar>) (\<lambda>x. Inr (format_float False 2 x))"
| "format_abs (JBool b) =
     andthen (int_to_float (if b then 1 else 0)) (\<lambda>x. Inr (format_float False 2 x))"
| "format_abs (JFloat x) = Inr (format_float False 2 (float_abs x))"
| "format_abs _ = Inl TypeError"

section \<open>The HTTP requests\<close>

text \<open>
  The outcome of one \<open>requests.get\<close>: the call raises a \<open>RequestException\<close> (\<open>Failed\<close>:
  no connection, timeout), or it returns a response with a status code and a body. Of the
  body, what matters is what \<open>Response.json()\<close> does with it: it returns a value, or it
  raises. Which exception it raises is the library's and the body's affair: on text that is
  not JSON, \<open>requests.exceptions.JSONDecodeError\<close> from requests 2.27 on and a plain
  \<open>ValueError\<close> before; a \<open>RecursionError\<close> on nesting that is too deep; a \<open>ValueError\<close> on
  an integer of too many digits.
\<close>

datatype body = Json jval | Undecodable exn

datatype http_result = Failed | Response nat body

definition request :: "http_result \<Rightarrow> exn + nat \<times> body" where
  "request r = (case r of Failed \<Rightarrow> Inl RequestException | Response st b \<Rightarrow> Inr (st, b))"

text \<open>\<open>response.raise_for_status()\<close> raises \<open>HTTPError\<close> for the statuses 400 to 599.\<close>

definition raise_for_status :: "nat \<times> body \<Rightarrow> exn + unit" where
  "raise_for_status response =
     (if 400 \<le> fst response \<and> fst response < 600 then Inl RequestException else Inr ())"

definition json :: "nat \<times> body \<Rightarrow> exn + jval" where
  "json response = (case snd response of Undecodable x \<Rightarrow> Inl x | Json v \<Rightarrow> Inr v)"

text \<open>
  What the bot's surroundings answer while one handler runs: the result of each request
  the handler may send to the price service, by endpoint and parameters, and Python's
  \<open>str()\<close> of the JSON values that are not strings (an f-string field without a format).
\<close>

record env =
  markets :: "nat \<Rightarrow> http_result"
  trending :: http_result
  simple_price :: "string \<Rightarrow> string \<Rightarrow> http_result"
  search :: "string \<Rightarrow> http_result"
  py_str :: "jval \<Rightarrow> string"

section \<open>Constants\<close>

definition SUPPORTED_CURRENCIES :: "string list" where
  "SUPPORTED_CURRENCIES =
     [''usd'', ''eur'', ''gbp'', ''jpy'', ''aud'', ''cad'', ''chf'', ''cny'', ''inr'']"

datatype state = MAIN_MENU | CHOOSING_CRYPTO | CHOOSING_CURRENCY | TYPING_SEARCH

section \<open>API functions\<close>

definition get_top_cryptos :: "env \<Rightarrow> nat \<Rightarrow> exn + jval" where
  "get_top_cryptos e limit =
     except_request
       (andthen (request (markets e limit)) (\<lambda>response.
        andthen (raise_for_status response) (\<lambda>_.
        json response)))
       (JArr [])"

definition get_trending_cryptos :: "env \<Rightarrow> exn + jval" where
  "get_trending_cryptos e =
     except_request
       (andthen (request (trending e)) (\<lambda>response.
        andthen (raise_for_status response) (\<lambda>_.
        andthen (json response) (\<lambda>data.
        get data ''coins'' (JArr [])))))
       (JArr [])"

definition get_crypto_details :: "env \<Rightarrow> string \<Rightarrow> string \<Rightarrow> exn + jval" where
  "get_crypto_details e crypto_id currency =
     except_request
       (andthen (request (simple_price e crypto_id currency)) (\<lambda>response.
        andthen (raise_for_status response) (\<lambda>_.
        andthen (json response) (\<lambda>data.
        get data crypto_id (JObj [])))))
       (JObj [])"

section \<open>Menus and messages\<close>

text \<open>
  A button is its label and its \<open>callback_data\<close>, a keyboard the rows of an
  \<open>InlineKeyboardMarkup\<close>. What a handler sends to Telegram is the list of its calls:
  \<open>query.answer()\<close>, \<open>edit_message_text\<close> and \<open>reply_text\<close>, with the keyboard when one is
  given. The calls themselves are taken to succeed.
\<close>

type_synonym button = "string \<times> string"

type_synonym keyboard = "button list list"

datatype action =
    Answer
  | EditMessage string "keyboard option"
  | ReplyText string "keyboard option"

text \<open>The update a handler receives: a pressed button with its data, or a message.\<close>

datatype update = CallbackQuery string | Message string

definition send :: "update \<Rightarrow> string \<Rightarrow> keyboard \<Rightarrow> action" where
  "send u text reply_markup =
     (case u of
        CallbackQuery _ \<Rightarrow> EditMessage text (Some reply_markup)
      | Message _ \<Rightarrow> ReplyText text (Some reply_markup))"

definition back_button :: button where
  "back_button = (''Back to Main Menu'', ''main_menu'')"

definition show_main_menu :: "update \<Rightarrow> action" where
  "show_main_menu u =
     (let keyboard =
            [[(''Top 100 Cryptocurrencies'', ''top100'')],
             [(''Trending Cryptocurrencies'', ''trending'')],
             [(''Search Cryptocurrency'', ''search'')]];
          text = ''Welcome to the Crypto Price Bot! What would you like to do?''
      in send u text keyboard)"

text \<open>An f-string field without a format: the string itself, or \<open>str()\<close> of the value.\<close>

definition fstr :: "(jval \<Rightarrow> string) \<Rightarrow> jval \<Rightarrow> string" where
  "fstr str v = (case v of JStr s \<Rightarrow> s | _ \<Rightarrow> str v)"

text \<open>\<open>symbol.upper()\<close>: only a string has the method.\<close>

definition str_upper :: "jval \<Rightarrow> exn + string" where
  "str_upper v = (case v of JStr s \<Rightarrow> Inr (upper s) | _ \<Rightarrow> Inl AttributeError)"

text \<open>The body of the inner loop of \<open>show_crypto_list\<close>: the button of one coin.\<close>

definition coin_button :: "(jval \<Rightarrow> string) \<Rightarrow> jval \<Rightarrow> exn + button" where
  "coin_button str crypto =
     andthen (get crypto ''name'' (JStr ''Unknown'')) (\<lambda>name.
     andthen (get crypto ''symbol'' (JStr ''Unknown'')) (\<lambda>symbol.
     andthen (get crypto ''id'' (JStr ''unknown'')) (\<lambda>crypto_id.
     andthen (str_upper symbol) (\<lambda>sym.
     Inr (fstr str name @ '' ('' @ sym @ '')'', ''crypto:'' @ fstr str crypto_id)))))"

text \<open>
  \<open>for i in range(0, len(cryptos), 2)\<close> with \<open>for crypto in cryptos[i:i+2]\<close>, on the
  elements of the sequence: two buttons a row, one in the last row of an odd number.
\<close>

fun keyboard_rows :: "(jval \<Rightarrow> string) \<Rightarrow> jval list \<Rightarrow> exn + keyboard" where
  "keyboard_rows str [] = Inr []"
| "keyboard_rows str [a] = andthen (coin_button str a) (\<lambda>x. Inr [[x]])"
| "keyboard_rows str (a # b # rest) =
     andthen (coin_button str a) (\<lambda>x.
     andthen (coin_button str b) (\<lambda>y.
     andthen (keyboard_rows str rest) (\<lambda>rows.
     Inr ([x, y] # rows))))"

text \<open>
  The elements the two loops visit. \<open>len\<close> raises a \<open>TypeError\<close> on \<open>None\<close>, a number or
  a bool; a string is sliced into strings and visited character by character; a dict
  that is not empty cannot be sliced (\<open>TypeError\<close>: unhashable slice; a \<open>KeyError\<close> from
  Python 3.12 on), an empty one is never sliced.
\<close>

fun elements :: "jval \<Rightarrow> exn + jval list" where
  "elements (JArr xs) = Inr xs"
| "elements (JStr s) = Inr (map (\<lambda>c. JStr [c]) s)"
| "elements (JObj kvs) = (if kvs = [] then Inr [] else Inl TypeError)"
| "elements _ = Inl TypeError"

definition show_crypto_list :: "(jval \<Rightarrow> string) \<Rightarrow> update \<Rightarrow> jval \<Rightarrow> string \<Rightarrow> exn + action" where
  "show_crypto_list str u cryptos title =
     andthen (elements cryptos) (\<lambda>coins.
     andthen (keyboard_rows str coins) (\<lambda>keyboard.
     Inr (send u title (keyboard @ [[back_button]]))))"

definition show_currency_options :: action where
  "show_currency_options =
     EditMessage ''Choose a currency:''
       (Some (map (\<lambda>currency. [(upper currency, ''currency:'' @ currency)]) SUPPORTED_CURRENCIES
              @ [[back_button]]))"

definition money_bag :: string where
  "money_bag = [CHR 0xF0, CHR 0x9F, CHR 0x92, CHR 0xB0]"

definition glyph_up :: string where
  "glyph_up = [CHR 0xF0, CHR 0x9F, CHR 0x94, CHR 0xBA]"

definition glyph_down :: string where
  "glyph_down = [CHR 0xF0, CHR 0x9F, CHR 0x94, CHR 0xBB]"

definition glyph_flat :: string where
  "glyph_flat = [CHR 0xE2, CHR 0x9E, CHR 0x96]"

definition change_symbol :: "jval \<Rightarrow> exn + string" where
  "change_symbol change_24h =
     andthen (gt0 change_24h) (\<lambda>pos.
     if pos then Inr glyph_up
     else andthen (lt0 change_24h) (\<lambda>neg.
          Inr (if neg then glyph_down else glyph_flat)))"

text \<open>The message of \<open>show_crypto_details\<close>, from the \<open>details\<close> the lookup returned.\<close>

definition details_message :: "string \<Rightarrow> string \<Rightarrow> jval \<Rightarrow> exn + string" where
  "details_message crypto_id currency details =
     (if truthy details then
        andthen (get details currency (JStr ''N/A'')) (\<lambda>price.
        andthen (get details (currency @ ''_24h_change'') (JStr ''N/A'')) (\<lambda>change_24h.
        andthen (get details (currency @ ''_market_cap'') (JStr ''N/A'')) (\<lambda>market_cap.
        andthen (change_symbol change_24h) (\<lambda>symbol.
        andthen (format_f 2 price) (\<lambda>p.
        andthen (format_abs change_24h) (\<lambda>c.
        andthen (format_f 0 market_cap) (\<lambda>m.
        Inr (money_bag @ '' '' @ capitalize crypto_id @ '' ('' @ upper currency @ '')\<newline>''
             @ ''Price: '' @ p @ '' '' @ upper currency @ ''\<newline>''
             @ ''24h Change: '' @ symbol @ '' '' @ c @ ''%\<newline>''
             @ ''Market Cap: '' @ m @ '' '' @ upper currency))))))))
      else Inr (''Sorry, I couldn't find the details for '' @ crypto_id @ ''.''))"

definition show_crypto_details :: "env \<Rightarrow> string \<Rightarrow> string \<Rightarrow> exn + action" where
  "show_crypto_details e crypto_id currency =
     andthen (get_crypto_details e crypto_id currency) (\<lambda>details.
     andthen (details_message crypto_id currency details) (\<lambda>message.
     Inr (EditMessage message (Some [[back_button]]))))"

section \<open>Handlers\<close>

text \<open>
  \<open>context.user_data\<close> is a dict; the bot only writes strings into it. A handler leaves
  behind the calls it sent, the user data, and either the exception that ended it or the
  value it returned: a next state, or \<open>None\<close>.
\<close>

type_synonym user_data = "string \<rightharpoonup> string"

type_synonym outcome = "action list \<times> user_data \<times> (exn + state option)"

definition help_text :: string where
  "help_text =
     ''Welcome to the Crypto Price Bot!\<newline>\<newline>''
     @ ''Commands:\<newline>''
     @ ''/start - Show main menu\<newline>''
     @ ''/help - Show this help message\<newline>\<newline>''
     @ ''You can check prices of top cryptocurrencies, view trending coins, ''
     @ ''or search for a specific cryptocurrency.''"

text \<open>The command handlers run on a message update.\<close>

definition start :: "user_data \<Rightarrow> string \<Rightarrow> outcome" where
  "start ud text = ([show_main_menu (Message text)], ud, Inr (Some MAIN_MENU))"

definition help_command :: "user_data \<Rightarrow> outcome" where
  "help_command ud = ([ReplyText help_text None], ud, Inr None)"

text \<open>\<open>button_click\<close> runs on a callback query; \<open>data\<close> is \<open>query.data\<close>.\<close>

definition button_click :: "env \<Rightarrow> user_data \<Rightarrow> string \<Rightarrow> outcome" where
  "button_click e ud data =
     (let u = CallbackQuery data in
      if data = ''main_menu'' then
        ([Answer, show_main_menu u], ud, Inr (Some MAIN_MENU))
      else if data = ''top100'' then
        (let wait = EditMessage ''Fetching top cryptocurrencies, please wait...'' None in
         case andthen (get_top_cryptos e 100) (\<lambda>cryptos.
              show_crypto_list (py_str e) u cryptos ''Top 100 Cryptocurrencies:'') of
           Inl x \<Rightarrow> ([Answer, wait], ud, Inl x)
         | Inr a \<Rightarrow> ([Answer, wait, a], ud, Inr (Some CHOOSING_CRYPTO)))
      else if data = ''trending'' then
        (let wait = EditMessage ''Fetching trending cryptocurrencies, please wait...'' None in
         case andthen (get_trending_cryptos e) (\<lambda>cryptos.
              show_crypto_list (py_str e) u cryptos ''Trending Cryptocurrencies:'') of
           Inl x \<Rightarrow> ([Answer, wait], ud, Inl x)
         | Inr a \<Rightarrow> ([Answer, wait, a], ud, Inr (Some CHOOSING_CRYPTO)))
      else if data = ''search'' then
        ([Answer,
          EditMessage ''Please enter the name of the cryptocurrency you want to check:'' None],
         ud, Inr (Some TYPING_SEARCH))
      else if startswith data ''crypto:'' then
        (case index (split CHR '':'' data) 1 of
           Inl x \<Rightarrow> ([Answer], ud, Inl x)
         | Inr crypto \<Rightarrow>
             ([Answer, show_currency_options], ud(''crypto'' \<mapsto> crypto),
              Inr (Some CHOOSING_CURRENCY)))
      else if startswith data ''currency:'' then
        (case index (split CHR '':'' data) 1 of
           Inl x \<Rightarrow> ([Answer], ud, Inl x)
         | Inr currency \<Rightarrow>
             (let crypto_id = (case ud ''crypto'' of Some c \<Rightarrow> c | None \<Rightarrow> ''bitcoin'') in
              case show_crypto_details e crypto_id currency of
                Inl x \<Rightarrow> ([Answer], ud, Inl x)
              | Inr a \<Rightarrow> ([Answer, a], ud, Inr (Some MAIN_MENU))))
      else ([Answer], ud, Inr None))"

text \<open>\<open>coins[:10]\<close>, on a value that is true: numbers and bools cannot be subscripted,
  a dict cannot be sliced.\<close>

fun first10 :: "jval \<Rightarrow> exn + jval" where
  "first10 (JArr xs) = Inr (JArr (take 10 xs))"
| "first10 (JStr s) = Inr (JStr (take 10 s))"
| "first10 _ = Inl TypeError"

text \<open>\<open>handle_message\<close> runs on a text message. The search request has no status check.\<close>

definition handle_message :: "env \<Rightarrow> user_data \<Rightarrow> string \<Rightarrow> outcome" where
  "handle_message e ud text =
     (let u = Message text; user_input = lower text in
      case andthen (request (search e user_input)) (\<lambda>response.
           andthen (json response) (\<lambda>search_results.
           get search_results ''coins'' (JArr []))) of
        Inl x \<Rightarrow>
          if is_request_exception x then
            ([ReplyText ''An error occurred while searching for the cryptocurrency.'' None,
              show_main_menu u], ud, Inr (Some MAIN_MENU))
          else ([], ud, Inl x)
      | Inr coins \<Rightarrow>
          if truthy coins then
            (case andthen (first10 coins) (\<lambda>top.
                  show_crypto_list (py_str e) u top ''Search Results:'') of
               Inl x \<Rightarrow> ([], ud, Inl x)
             | Inr a \<Rightarrow> ([a], ud, Inr (Some CHOOSING_CRYPTO)))
          else
            ([ReplyText ''Sorry, I couldn't find any cryptocurrency matching your search.'' None,
              show_main_menu u], ud, Inr (Some MAIN_MENU)))"

section \<open>The conversation\<close>

text \<open>
  The \<open>ConversationHandler\<close> of \<open>main\<close>. A conversation is in no state before its first
  \<open>/start\<close> (the only entry point). In a state, the handlers of that state see the update
  first, then the fallback \<open>/start\<close>; \<open>button_click\<close> is registered for the three menu
  states, \<open>handle_message\<close> for \<open>TYPING_SEARCH\<close> and for text that is not a command. An
  update that no handler of the conversation takes goes to the \<open>/help\<close> handler. The state
  changes when the handler returns one; it stays when the handler returns \<open>None\<close> or raises.
  The user data is the user's, and outlives the conversation.
\<close>

datatype event = Command string | Callback string | Text string

record session =
  state :: "state option"
  user_data :: user_data

definition after :: "session \<Rightarrow> outcome \<Rightarrow> session \<times> action list \<times> exn option" where
  "after s out =
     (case out of (actions, ud, returned) \<Rightarrow>
        (case returned of
           Inl x \<Rightarrow> (s\<lparr>user_data := ud\<rparr>, actions, Some x)
         | Inr None \<Rightarrow> (s\<lparr>user_data := ud\<rparr>, actions, None)
         | Inr (Some next) \<Rightarrow> (\<lparr>state = Some next, user_data = ud\<rparr>, actions, None)))"

definition ignored :: "session \<Rightarrow> session \<times> action list \<times> exn option" where
  "ignored s = (s, [], None)"

fun step :: "env \<Rightarrow> session \<Rightarrow> event \<Rightarrow> session \<times> action list \<times> exn option" where
  "step e s (Command c) =
     (if c = ''start'' then after s (start (user_data s) ''/start'')
      else if c = ''help'' then after s (help_command (user_data s))
      else ignored s)"
| "step e s (Callback data) =
     (if state s \<in> {Some MAIN_MENU, Some CHOOSING_CRYPTO, Some CHOOSING_CURRENCY}
      then after s (button_click e (user_data s) data)
      else ignored s)"
| "step e s (Text text) =
     (if state s = Some TYPING_SEARCH then after s (handle_message e (user_data s) text)
      else ignored s)"

section \<open>Properties of inputs, and scenarios\<close>

text \<open>\<open>w in s\<close>.\<close>

definition contains :: "string \<Rightarrow> string \<Rightarrow> bool" where
  "contains s w = (0 < count_sub w s)"

text \<open>
  The requests the three API functions answer with their empty result: the call raised,
  the status is an error status, or \<open>Response.json()\<close> raises a \<open>RequestException\<close> on the
  body.
\<close>

fun request_fails :: "http_result \<Rightarrow> bool" where
  "request_fails Failed = True"
| "request_fails (Response st (Json v)) = (400 \<le> st \<and> st < 600)"
| "request_fails (Response st (Undecodable x)) =
     (400 \<le> st \<and> st < 600 \<or> is_request_exception x)"

text \<open>
  The numbers the format code \<open>f\<close> accepts: every float, and the integers that convert
  to a float.
\<close>

fun formattable :: "jval \<Rightarrow> bool" where
  "formattable (JFloat x) = True"
| "formattable (JInt n) = (\<bar>n\<bar> < 2 ^ 1024 - 2 ^ 970)"
| "formattable _ = False"

text \<open>A number above 0, below 0, and equal to 0 (as \<open>-0.0\<close> is; \<open>nan\<close> is none of the three).\<close>

fun above_zero :: "jval \<Rightarrow> bool" where
  "above_zero (JInt n) = (0 < n)"
| "above_zero (JFloat (Finite r)) = (0 < r)"
| "above_zero (JFloat PosInf) = True"
| "above_zero _ = False"

fun below_zero :: "jval \<Rightarrow> bool" where
  "below_zero (JInt n) = (n < 0)"
| "below_zero (JFloat (Finite r)) = (r < 0)"
| "below_zero (JFloat NegInf) = True"
| "below_zero _ = False"

fun equal_zero :: "jval \<Rightarrow> bool" where
  "equal_zero (JInt n) = (n = 0)"
| "equal_zero (JFloat (Finite r)) = (r = 0)"
| "equal_zero (JFloat NegZero) = True"
| "equal_zero _ = False"

text \<open>
  A coin of a list endpoint as the menu expects it: a dict with a string \<open>id\<close>, and with
  \<open>name\<close> and \<open>symbol\<close> strings where they are present.
\<close>

definition string_or_absent :: "jval option \<Rightarrow> bool" where
  "string_or_absent v = (case v of None \<Rightarrow> True | Some (JStr _) \<Rightarrow> True | Some _ \<Rightarrow> False)"

definition is_coin_summary :: "jval \<Rightarrow> bool" where
  "is_coin_summary c =
     (case c of
        JObj kvs \<Rightarrow>
          (case map_of kvs ''id'' of Some (JStr _) \<Rightarrow> True | _ \<Rightarrow> False)
          \<and> string_or_absent (map_of kvs ''name'')
          \<and> string_or_absent (map_of kvs ''symbol'')
      | _ \<Rightarrow> False)"

definition coin_id :: "jval \<Rightarrow> string" where
  "coin_id c =
     (case c of
        JObj kvs \<Rightarrow> (case map_of kvs ''id'' of Some (JStr i) \<Rightarrow> i | _ \<Rightarrow> ''unknown'')
      | _ \<Rightarrow> ''unknown'')"

text \<open>The price service cannot be reached.\<close>

definition offline :: env where
  "offline =
     \<lparr>markets = (\<lambda>_. Failed), trending = Failed, simple_price = (\<lambda>_ _. Failed),
      search = (\<lambda>_. Failed), py_str = (\<lambda>_. '''')\<rparr>"

text \<open>
  The service of the specification's scenarios: two top coins, and the price 65000.5, the
  24h change -2.3 (the double nearest to it) and the market cap 1280000000000 of Bitcoin
  in US dollars.
\<close>

definition bitcoin :: jval where
  "bitcoin =
     JObj [(''id'', JStr ''bitcoin''), (''name'', JStr ''Bitcoin''), (''symbol'', JStr ''btc'')]"

definition ethereum :: jval where
  "ethereum =
     JObj [(''id'', JStr ''ethereum''), (''name'', JStr ''Ethereum''), (''symbol'', JStr ''eth'')]"

definition bitcoin_usd :: "(string \<times> jval) list" where
  "bitcoin_usd =
     [(''usd'', JFloat (Finite (130001 / 2))),
      (''usd_24h_change'', JFloat (Finite (- 2589569785738035 / 1125899906842624))),
      (''usd_market_cap'', JInt 1280000000000)]"

definition scenario :: env where
  "scenario =
     \<lparr>markets = (\<lambda>_. Response 200 (Json (JArr [bitcoin, ethereum]))),
      trending = Failed,
      simple_price = (\<lambda>_ _. Response 200 (Json (JObj [(''bitcoin'', JObj bitcoin_usd)]))),
      search = (\<lambda>_. Response 200 (Json (JObj [(''coins'', JArr [])]))),
      py_str = (\<lambda>_. '''')\<rparr>"

text \<open>Details in euros with a change above 0, and in rupees with a change of \<open>-0.0\<close>.\<close>

definition rising_eur :: "(string \<times> jval) list" where
  "rising_eur =
     [(''eur'', JInt 2), (''eur_24h_change'', JInt 1), (''eur_market_cap'', JFloat PosInf)]"

definition steady_inr :: "(string \<times> jval) list" where
  "steady_inr =
     [(''inr'', JFloat (Finite 1)), (''inr_24h_change'', JFloat NegZero),
      (''inr_market_cap'', JInt 0)]"

text \<open>The same service, answering the price lookup without the 24h change.\<close>

definition no_change :: env where
  "no_change =
     scenario\<lparr>simple_price := (\<lambda>_ _. Response 200 (Json (JObj [(''bitcoin'',
        JObj [(''usd'', JFloat (Finite (130001 / 2))),
              (''usd_market_cap'', JInt 1280000000000)])])))\<rparr>"

text \<open>The same service, answering the search with status 500 and a list of coins.\<close>

definition error_status :: env where
  "error_status =
     scenario\<lparr>search := (\<lambda>_. Response 500 (Json (JObj [(''coins'', JArr [bitcoin])])))\<rparr>"

section \<open>Evaluation\<close>

lemma digits_small: "n < 10 \<Longrightarrow> digits n = [digit n]"
  by (simp add: digits.simps)

lemma digits_large: "\<not> n < 10 \<Longrightarrow> digits n = digits (n div 10) @ [digit (n mod 10)]"
  by (subst digits.simps) simp

lemma group3_small: "length s \<le> 3 \<Longrightarrow> group3 s = s"
  by (simp add: group3.simps)

lemma group3_large:
  "\<not> length s \<le> 3 \<Longrightarrow>
   group3 s = group3 (take (length s - 3) s) @ CHR '','' # drop (length s - 3) s"
  by (subst group3.simps) simp

lemma floor_rat_numeral: "\<lfloor>numeral a / numeral b :: rat\<rfloor> = numeral a div numeral b"
  using floor_divide_of_int_eq [of "numeral a" "numeral b", where ?'a = rat] by simp

lemma round_half_even_of_int: "round_half_even (of_int z) = z"
  by (simp add: round_half_even_def)

lemma bit_length_le: "n < 2 ^ k \<Longrightarrow> bit_length n \<le> k"
proof (induction k arbitrary: n)
  case 0
  then show ?case by (simp add: bit_length.simps)
next
  case (Suc k)
  then have "n div 2 < 2 ^ k" by simp
  then have "bit_length (n div 2) \<le> k" by (rule Suc.IH)
  then show ?case by (subst bit_length.simps) simp
qed

lemma round53_small: "\<bar>n\<bar> < 2 ^ 53 \<Longrightarrow> round53 n = n"
proof -
  assume "\<bar>n\<bar> < 2 ^ 53"
  then have "nat \<bar>n\<bar> < 2 ^ 53"
    by (simp add: nat_less_iff)
  then have "bit_length (nat \<bar>n\<bar>) - 53 = 0"
    using bit_length_le [of "nat \<bar>n\<bar>" 53] by simp
  moreover have "round_half_even (- rat_of_int n) = - n"
    using round_half_even_of_int [of "- n"] by simp
  ultimately show ?thesis
    by (simp add: round53_def Let_def round_half_even_of_int)
qed

lemma int_to_float_small: "\<bar>n\<bar> < 2 ^ 53 \<Longrightarrow> int_to_float n = Inr (Finite (of_int n))"
proof -
  assume small: "\<bar>n\<bar> < 2 ^ 53"
  have "(2::int) ^ 53 \<le> 2 ^ 1024 - 2 ^ 970" by simp
  then have "\<not> 2 ^ 1024 - 2 ^ 970 \<le> \<bar>n\<bar>" using small by linarith
  then show ?thesis
    using round53_small [OF small] by (simp only: int_to_float_def if_False)
qed

lemma int_to_float_overflow: "2 ^ 1024 - 2 ^ 970 \<le> \<bar>n\<bar> \<Longrightarrow> int_to_float n = Inl OverflowError"
  by (simp add: int_to_float_def)

lemmas format_eval =
  digits_small digits_large group3_small group3_large floor_rat_numeral
  fixed_def round_half_even_def digit_def Let_def int_to_float_small

lemmas case_eval =
  upper_def lower_def upper_char_def lower_char_def uppercase_def lowercase_def

lemmas client_eval =
  get_top_cryptos_def get_trending_cryptos_def get_crypto_details_def
  request_def raise_for_status_def json_def

lemmas render_eval =
  show_crypto_list_def coin_button_def str_upper_def fstr_def send_def
  show_crypto_details_def details_message_def change_symbol_def

section \<open>Selection tokens\<close>

lemma split_not_Nil: "split sep s \<noteq> []"
  by (induction s) (auto split: list.splits)

lemma hd_split: "hd (split sep s) = takeWhile (\<lambda>c. c \<noteq> sep) s"
  by (induction s) (auto split: list.splits simp: split_not_Nil)

lemma split_append_sep: "sep \<notin> set pre \<Longrightarrow> split sep (pre @ sep # s) = pre # split sep s"
  by (induction pre) auto

lemma index_split_1:
  assumes "sep \<notin> set pre"
  shows "index (split sep (pre @ sep # s)) 1 = Inr (takeWhile (\<lambda>c. c \<noteq> sep) s)"
proof -
  obtain f fs where fs: "split sep s = f # fs"
    using split_not_Nil [of sep s] by (cases "split sep s") auto
  have "f = takeWhile (\<lambda>c. c \<noteq> sep) s"
    using hd_split [of sep s] fs by simp
  then show ?thesis
    using assms fs by (simp add: split_append_sep index_def)
qed

lemma crypto_field:
  "index (split CHR '':'' (''crypto:'' @ p)) 1 = Inr (takeWhile (\<lambda>c. c \<noteq> CHR '':'') p)"
  using index_split_1 [of "CHR '':''" "''crypto''" p] by simp

lemma currency_field:
  "index (split CHR '':'' (''currency:'' @ p)) 1 = Inr (takeWhile (\<lambda>c. c \<noteq> CHR '':'') p)"
  using index_split_1 [of "CHR '':''" "''currency''" p] by simp

lemma button_click_crypto:
  "button_click e ud (''crypto:'' @ p) =
     ([Answer, show_currency_options], ud(''crypto'' \<mapsto> takeWhile (\<lambda>c. c \<noteq> CHR '':'') p),
      Inr (Some CHOOSING_CURRENCY))"
  using crypto_field [of p] by (simp add: button_click_def startswith_def)

lemma button_click_currency:
  "button_click e ud (''currency:'' @ p) =
     (case show_crypto_details e (case ud ''crypto'' of Some c \<Rightarrow> c | None \<Rightarrow> ''bitcoin'')
             (takeWhile (\<lambda>c. c \<noteq> CHR '':'') p) of
        Inl x \<Rightarrow> ([Answer], ud, Inl x)
      | Inr a \<Rightarrow> ([Answer, a], ud, Inr (Some MAIN_MENU)))"
  using currency_field [of p] by (simp add: button_click_def startswith_def)

text \<open>
  C9. A selection token that is none of \<open>main_menu\<close>, \<open>top100\<close>, \<open>trending\<close>, \<open>search\<close> and
  starts with neither \<open>crypto:\<close> nor \<open>currency:\<close> is ignored: \<open>button_click\<close> acknowledges
  the query, sends no message, leaves the user data alone and returns no next state, so
  the conversation stays in the state it is in.
\<close>

theorem unknown_token_ignored:
  assumes "data \<notin> {''main_menu'', ''top100'', ''trending'', ''search''}"
    and "\<not> startswith data ''crypto:''"
    and "\<not> startswith data ''currency:''"
  shows "button_click e ud data = ([Answer], ud, Inr None)
       \<and> fst (step e s (Callback data)) = s
       \<and> set (fst (snd (step e s (Callback data)))) \<subseteq> {Answer}"
  using assms by (cases s) (simp add: button_click_def after_def ignored_def)

theorem unknown_token_ignored_witness:
  "''price:btc'' \<notin> {''main_menu'', ''top100'', ''trending'', ''search''}
   \<and> \<not> startswith ''price:btc'' ''crypto:''
   \<and> \<not> startswith ''price:btc'' ''currency:''
   \<and> button_click offline Map.empty ''price:btc'' = ([Answer], Map.empty, Inr None)
   \<and> fst (step offline \<lparr>state = Some CHOOSING_CRYPTO, user_data = Map.empty\<rparr>
             (Callback ''price:btc''))
       = \<lparr>state = Some CHOOSING_CRYPTO, user_data = Map.empty\<rparr>
   \<and> set (fst (snd (step offline \<lparr>state = Some CHOOSING_CRYPTO, user_data = Map.empty\<rparr>
                        (Callback ''price:btc'')))) \<subseteq> {Answer}"
  using unknown_token_ignored [of "''price:btc''" offline Map.empty
      "\<lparr>state = Some CHOOSING_CRYPTO, user_data = Map.empty\<rparr>"]
  by (simp add: startswith_def after_def)

text \<open>
  C10. The payload of a token is cut at its first colon: \<open>split(':')[1]\<close> is the text
  between the first and the second colon of the token. For \<open>crypto:<payload>\<close> that text
  is stored as the coin id, for \<open>currency:<payload>\<close> it is the currency of the lookup;
  the token \<open>crypto:a:b\<close> stores \<open>a\<close>.
\<close>

theorem token_payload_truncated:
  "button_click e ud (''crypto:'' @ p) =
     ([Answer, show_currency_options], ud(''crypto'' \<mapsto> takeWhile (\<lambda>c. c \<noteq> CHR '':'') p),
      Inr (Some CHOOSING_CURRENCY))
   \<and> button_click e ud (''currency:'' @ p) =
     (case show_crypto_details e (case ud ''crypto'' of Some c \<Rightarrow> c | None \<Rightarrow> ''bitcoin'')
             (takeWhile (\<lambda>c. c \<noteq> CHR '':'') p) of
        Inl x \<Rightarrow> ([Answer], ud, Inl x)
      | Inr a \<Rightarrow> ([Answer, a], ud, Inr (Some MAIN_MENU)))
   \<and> button_click e ud ''crypto:a:b'' =
     ([Answer, show_currency_options], ud(''crypto'' \<mapsto> ''a''), Inr (Some CHOOSING_CURRENCY))"
  using button_click_crypto [of e ud p] button_click_currency [of e ud p]
    button_click_crypto [of e ud "''a:b''"] by simp

text \<open>
  A \<open>currency:<code>\<close> selection in a session that holds no coin id does not stop at
  the missing entry: the detail lookup is made for the coin id \<open>bitcoin\<close>, and what is
  sent and returned is what the same selection sends and returns in a session that stores
  \<open>bitcoin\<close>.
\<close>

lemma default_coin_id:
  assumes "ud ''crypto'' = None"
  shows "button_click e ud (''currency:'' @ code) =
           (case show_crypto_details e ''bitcoin'' (takeWhile (\<lambda>c. c \<noteq> CHR '':'') code) of
              Inl x \<Rightarrow> ([Answer], ud, Inl x)
            | Inr a \<Rightarrow> ([Answer, a], ud, Inr (Some MAIN_MENU)))
       \<and> fst (button_click e ud (''currency:'' @ code))
           = fst (button_click e (ud(''crypto'' \<mapsto> ''bitcoin'')) (''currency:'' @ code))
       \<and> snd (snd (button_click e ud (''currency:'' @ code)))
           = snd (snd (button_click e (ud(''crypto'' \<mapsto> ''bitcoin'')) (''currency:'' @ code)))"
proof -
  have a: "button_click e ud (''currency:'' @ code) =
           (case show_crypto_details e ''bitcoin'' (takeWhile (\<lambda>c. c \<noteq> CHR '':'') code) of
              Inl x \<Rightarrow> ([Answer], ud, Inl x)
            | Inr a \<Rightarrow> ([Answer, a], ud, Inr (Some MAIN_MENU)))"
    unfolding button_click_currency using assms by simp
  have b: "button_click e (ud(''crypto'' \<mapsto> ''bitcoin'')) (''currency:'' @ code) =
           (case show_crypto_details e ''bitcoin'' (takeWhile (\<lambda>c. c \<noteq> CHR '':'') code) of
              Inl x \<Rightarrow> ([Answer], ud(''crypto'' \<mapsto> ''bitcoin''), Inl x)
            | Inr a \<Rightarrow> ([Answer, a], ud(''crypto'' \<mapsto> ''bitcoin''), Inr (Some MAIN_MENU)))"
    unfolding button_click_currency by simp
  show ?thesis
    unfolding a b by (simp split: sum.splits)
qed

lemma default_coin_id_scenario:
  "Map.empty ''crypto'' = None
   \<and> button_click scenario Map.empty ''currency:usd'' =
     ([Answer,
       EditMessage
         (money_bag @ '' Bitcoin (USD)\<newline>Price: 65,000.50 USD\<newline>24h Change: ''
          @ glyph_down @ '' 2.30%\<newline>Market Cap: 1,280,000,000,000 USD'')
         (Some [[back_button]])],
      Map.empty, Inr (Some MAIN_MENU))"
  using default_coin_id [of Map.empty scenario "''usd''"]
  by (simp add: scenario_def bitcoin_usd_def client_eval render_eval format_eval case_eval)

section \<open>Counting a word in a text\<close>

lemma prefix_sep: "x \<notin> set w \<Longrightarrow> prefix w (xs @ x # ys) \<longleftrightarrow> prefix w xs"
  by (auto simp: prefix_append prefix_Cons)

lemma count_sub_sep:
  "x \<notin> set w \<Longrightarrow> count_sub w (xs @ x # ys) = count_sub w xs + count_sub w ys"
proof (induction xs)
  case Nil
  then show ?case by (auto simp: prefix_Cons)
next
  case (Cons a xs)
  have "prefix w (a # xs @ x # ys) \<longleftrightarrow> prefix w (a # xs)"
    using prefix_sep [OF Cons.prems, of "a # xs" ys] by simp
  then show ?case using Cons by simp
qed

lemma count_sub_first: "a \<notin> set s \<Longrightarrow> count_sub (a # w) s = 0"
  by (induction s) auto

lemma count_sub_second: "b \<notin> set (tl s) \<Longrightarrow> count_sub (a # b # w) s = 0"
proof (induction s)
  case Nil
  then show ?case by simp
next
  case (Cons c cs)
  then have "b \<notin> set (tl cs)" by (cases cs) auto
  then have "count_sub (a # b # w) cs = 0" using Cons.IH by simp
  moreover have "\<not> prefix (a # b # w) (c # cs)"
    using Cons.prems by (cases cs) auto
  ultimately show ?case by simp
qed

lemma count_sub_self: "0 < count_sub w (w @ ys)"
proof (cases w)
  case Nil
  then show ?thesis by (cases ys) auto
next
  case (Cons a w')
  then show ?thesis by simp
qed

lemma count_sub_middle: "0 < count_sub w (xs @ w @ ys)"
  by (induction xs) (auto simp: count_sub_self)

lemma lower_char_not_upper: "lower_char c \<notin> set uppercase"
proof (cases "map_of (zip uppercase lowercase) c")
  case None
  have "map fst (zip uppercase lowercase) = uppercase"
    by (simp add: uppercase_def lowercase_def)
  then have "fst ` set (zip uppercase lowercase) = set uppercase"
    by (metis set_map)
  then have "c \<notin> set uppercase"
    using None map_of_eq_None_iff [of "zip uppercase lowercase" c] by simp
  then show ?thesis using None by (simp add: lower_char_def)
next
  case (Some l)
  then have "l \<in> set lowercase"
    by (meson map_of_SomeD set_zip_rightD)
  moreover have "set lowercase \<inter> set uppercase = {}"
    by (simp add: uppercase_def lowercase_def)
  ultimately show ?thesis using Some by (auto simp: lower_char_def)
qed

lemma count_sub_capitalize:
  "b \<in> set uppercase \<Longrightarrow> count_sub (a # b # w) (capitalize s) = 0"
proof (cases s)
  case Nil
  then show ?thesis by simp
next
  case (Cons c cs)
  assume "b \<in> set uppercase"
  then have "b \<notin> set (lower cs)"
    using lower_char_not_upper by (auto simp: lower_def)
  then show ?thesis
    using Cons count_sub_second [of b "capitalize s" a w] by simp
qed

lemma digit_chars: "d < 10 \<Longrightarrow> digit d \<in> set ''0123456789''"
  unfolding digit_def by (rule nth_mem) simp

lemma digits_chars: "set (digits n) \<subseteq> set ''0123456789''"
proof (induction n rule: digits.induct)
  case (1 n)
  show ?case
  proof (cases "n < 10")
    case True
    then show ?thesis
      using digit_chars [of n] by (simp only: digits_small) simp
  next
    case False
    have "digit (n mod 10) \<in> set ''0123456789''"
      by (rule digit_chars) simp
    moreover have "set (digits (n div 10)) \<subseteq> set ''0123456789''"
      using False 1 by blast
    ultimately show ?thesis
      by (simp only: digits_large [OF False] set_append) simp
  qed
qed

lemma group3_chars: "set (group3 s) \<subseteq> insert CHR '','' (set s)"
proof (induction s rule: group3.induct)
  case (1 s)
  show ?case
  proof (cases "length s \<le> 3")
    case True
    then show ?thesis by (auto simp: group3_small)
  next
    case False
    have "set (take (length s - 3) s) \<subseteq> set s"
      by (rule set_take_subset)
    moreover have "set (drop (length s - 3) s) \<subseteq> set s"
      by (rule set_drop_subset)
    moreover have "set (group3 (take (length s - 3) s))
        \<subseteq> insert CHR '','' (set (take (length s - 3) s))"
      using False 1 by blast
    ultimately show ?thesis
      by (simp only: group3_large [OF False] set_append list.set) blast
  qed
qed

lemma fixed_chars: "set (fixed g p r) \<subseteq> set ''0123456789,.-''"
proof -
  define D where "D = set ''0123456789''"
  define S where "S = set ''0123456789,.-''"
  have DS: "D \<subseteq> S" and comma: "CHR '','' \<in> S" and point: "CHR ''.'' \<in> S"
    and minus: "CHR ''-'' \<in> S" and zero: "CHR ''0'' \<in> S"
    by (simp_all add: D_def S_def)
  have d: "set (digits n) \<subseteq> S" for n
    using digits_chars [of n] DS unfolding D_def by blast
  have g3: "set (group3 (digits n)) \<subseteq> S" for n
    using group3_chars [of "digits n"] d [of n] comma by blast
  have sign: "set (if r < 0 then ''-'' else '''') \<subseteq> S"
    using minus by auto
  have ip: "set (if g then group3 (digits n) else digits n) \<subseteq> S" for n
    using d g3 by simp
  have rep: "set (replicate k CHR ''0'') \<subseteq> S" for k
    using zero by (cases k) auto
  have fp: "set (if p = 0 then '''' else CHR ''.'' # replicate k CHR ''0'' @ digits n) \<subseteq> S" for k n
    using point rep [of k] d [of n] by simp
  show ?thesis
    unfolding fixed_def Let_def S_def [symmetric] set_append
    using sign ip fp by blast
qed

lemma count_sub_fixed: "a \<in> set uppercase \<Longrightarrow> count_sub (a # w) (fixed g p r) = 0"
proof -
  assume "a \<in> set uppercase"
  moreover have "set uppercase \<inter> set ''0123456789,.-'' = {}"
    by (simp add: uppercase_def)
  ultimately have "a \<notin> set (fixed g p r)"
    using fixed_chars [of g p r] by blast
  then show ?thesis by (rule count_sub_first)
qed

lemma format_float_chars: "set (format_float g p x) \<inter> set uppercase = {}"
proof -
  have fixed: "set (fixed g p r) \<inter> set uppercase = {}" for r
  proof -
    have "set ''0123456789,.-'' \<inter> set uppercase = {}"
      by (simp add: uppercase_def)
    then show ?thesis
      using fixed_chars [of g p r] by blast
  qed
  show ?thesis
  proof (cases x)
    case (Finite r)
    then show ?thesis using fixed [of r] by simp
  next
    case NegZero
    have "CHR ''-'' \<notin> set uppercase" by (simp add: uppercase_def)
    then show ?thesis using NegZero fixed [of 0] by simp
  next
    case PosInf
    then show ?thesis by (simp add: uppercase_def)
  next
    case NegInf
    then show ?thesis by (simp add: uppercase_def)
  next
    case NaN
    then show ?thesis by (simp add: uppercase_def)
  qed
qed

lemma int_to_float_formattable:
  "\<bar>n\<bar> < 2 ^ 1024 - 2 ^ 970 \<Longrightarrow> int_to_float n = Inr (Finite (of_int (round53 n)))"
  by (simp add: int_to_float_def)

lemma formattable_format_f:
  assumes "formattable v"
  shows "\<exists>s. format_f p v = Inr s \<and> set s \<inter> set uppercase = {}"
proof (cases v)
  case (JInt n)
  then have "format_f p v = Inr (format_float True p (Finite (of_int (round53 n))))"
    using assms by (simp add: int_to_float_formattable)
  then show ?thesis using format_float_chars by blast
next
  case (JFloat x)
  then show ?thesis using format_float_chars by simp
qed (use assms in simp_all)

lemma formattable_format_abs:
  assumes "formattable v"
  shows "\<exists>s. format_abs v = Inr s \<and> set s \<inter> set uppercase = {}"
proof (cases v)
  case (JInt n)
  then have "format_abs v = Inr (format_float False 2 (Finite (of_int (round53 \<bar>n\<bar>))))"
    using assms by (simp add: int_to_float_formattable)
  then show ?thesis using format_float_chars by blast
next
  case (JFloat x)
  then show ?thesis using format_float_chars by simp
qed (use assms in simp_all)

lemma formattable_change_symbol:
  assumes "formattable v"
  shows "change_symbol v =
           Inr (if above_zero v then glyph_up
                else if below_zero v then glyph_down else glyph_flat)"
proof (cases v)
  case (JInt n)
  then show ?thesis by (simp add: change_symbol_def)
next
  case (JFloat x)
  then show ?thesis by (cases x) (simp_all add: change_symbol_def)
qed (use assms in simp_all)

lemma details_message_numbers:
  assumes "map_of kvs c = Some price" and "formattable price"
    and "map_of kvs (c @ ''_24h_change'') = Some change" and "formattable change"
    and "map_of kvs (c @ ''_market_cap'') = Some cap" and "formattable cap"
  shows "\<exists>p a m.
     set p \<inter> set uppercase = {} \<and> set a \<inter> set uppercase = {} \<and> set m \<inter> set uppercase = {}
     \<and> details_message crypto_id c (JObj kvs) =
       Inr (money_bag @ '' '' @ capitalize crypto_id @ '' ('' @ upper c @ '')\<newline>''
            @ ''Price: '' @ p @ '' '' @ upper c @ ''\<newline>''
            @ ''24h Change: ''
            @ (if above_zero change then glyph_up
               else if below_zero change then glyph_down else glyph_flat)
            @ '' '' @ a @ ''%\<newline>''
            @ ''Market Cap: '' @ m @ '' '' @ upper c)"
proof -
  obtain p where p: "format_f 2 price = Inr p" "set p \<inter> set uppercase = {}"
    using formattable_format_f [OF assms(2)] by blast
  obtain a where a: "format_abs change = Inr a" "set a \<inter> set uppercase = {}"
    using formattable_format_abs [OF assms(4)] by blast
  obtain m where m: "format_f 0 cap = Inr m" "set m \<inter> set uppercase = {}"
    using formattable_format_f [OF assms(6)] by blast
  have "kvs \<noteq> []" using assms(1) by auto
  then have "details_message crypto_id c (JObj kvs) =
       Inr (money_bag @ '' '' @ capitalize crypto_id @ '' ('' @ upper c @ '')\<newline>''
            @ ''Price: '' @ p @ '' '' @ upper c @ ''\<newline>''
            @ ''24h Change: ''
            @ (if above_zero change then glyph_up
               else if below_zero change then glyph_down else glyph_flat)
            @ '' '' @ a @ ''%\<newline>''
            @ ''Market Cap: '' @ m @ '' '' @ upper c)"
    using assms(1,3,5) p(1) a(1) m(1) formattable_change_symbol [OF assms(4)]
    by (simp add: details_message_def)
  then show ?thesis using p(2) a(2) m(2) by blast
qed

lemma supported_upper:
  "c \<in> set SUPPORTED_CURRENCIES \<Longrightarrow>
   upper c \<in> {''USD'', ''EUR'', ''GBP'', ''JPY'', ''AUD'', ''CAD'', ''CHF'', ''CNY'', ''INR''}"
  by (auto simp: SUPPORTED_CURRENCIES_def case_eval)

lemma count_sub_no_upper:
  assumes "W \<in> {''USD'', ''EUR'', ''GBP'', ''JPY'', ''AUD'', ''CAD'', ''CHF'', ''CNY'', ''INR''}"
    and "set s \<inter> set uppercase = {}"
  shows "count_sub W s = 0"
proof -
  from assms(1) have "W \<noteq> [] \<and> hd W \<in> set uppercase"
    by (elim insertE emptyE) (simp_all add: uppercase_def)
  then obtain a w where W: "W = a # w" and a: "a \<in> set uppercase"
    by (cases W) auto
  then have "a \<notin> set s" using assms(2) by blast
  then show ?thesis unfolding W by (rule count_sub_first)
qed

lemma count_code:
  assumes "W \<in> {''USD'', ''EUR'', ''GBP'', ''JPY'', ''AUD'', ''CAD'', ''CHF'', ''CNY'', ''INR''}"
    and "g \<in> {glyph_up, glyph_down, glyph_flat}"
    and "count_sub W p = 0" and "count_sub W a = 0" and "count_sub W m = 0"
  shows "count_sub W
     (money_bag @ '' '' @ capitalize crypto_id @ '' ('' @ W @ '')\<newline>''
          @ ''Price: '' @ p @ '' '' @ W @ ''\<newline>''
          @ ''24h Change: '' @ g
          @ '' '' @ a @ ''%\<newline>''
          @ ''Market Cap: '' @ m @ '' '' @ W) = 3"
proof -
  note rules = count_sub_sep count_sub_capitalize uppercase_def
    money_bag_def glyph_up_def glyph_down_def glyph_flat_def
  from assms(2) consider "g = glyph_up" | "g = glyph_down" | "g = glyph_flat" by auto
  then show ?thesis
  proof cases
    case 1
    from assms(1,3,4,5) show ?thesis unfolding 1
      by (elim insertE emptyE) (simp_all add: rules)
  next
    case 2
    from assms(1,3,4,5) show ?thesis unfolding 2
      by (elim insertE emptyE) (simp_all add: rules)
  next
    case 3
    from assms(1,3,4,5) show ?thesis unfolding 3
      by (elim insertE emptyE) (simp_all add: rules)
  qed
qed

section \<open>The coin list\<close>

lemma coin_button_summary:
  "is_coin_summary c \<Longrightarrow> \<exists>label. coin_button str c = Inr (label, ''crypto:'' @ coin_id c)"
  by (auto simp: is_coin_summary_def string_or_absent_def coin_id_def coin_button_def
      str_upper_def fstr_def split: jval.splits option.splits)

lemma keyboard_rows_layout:
  "list_all is_coin_summary coins \<Longrightarrow>
   \<exists>rows. keyboard_rows str coins = Inr rows
     \<and> length rows = (length coins + 1) div 2
     \<and> (\<forall>i<length rows. length (rows ! i) = (if 2 * i + 1 < length coins then 2 else 1))
     \<and> map snd (concat rows) = map (\<lambda>c. ''crypto:'' @ coin_id c) coins"
proof (induction str coins rule: keyboard_rows.induct)
  case (1 str)
  then show ?case by simp
next
  case (2 str a)
  then obtain la where "coin_button str a = Inr (la, ''crypto:'' @ coin_id a)"
    using coin_button_summary [of a str] by auto
  then show ?case by simp
next
  case (3 str a b rest)
  obtain la where a: "coin_button str a = Inr (la, ''crypto:'' @ coin_id a)"
    using 3 coin_button_summary [of a str] by auto
  obtain lb where b: "coin_button str b = Inr (lb, ''crypto:'' @ coin_id b)"
    using 3 coin_button_summary [of b str] by auto
  from 3 obtain rows where rows: "keyboard_rows str rest = Inr rows"
    "length rows = (length rest + 1) div 2"
    "\<forall>i<length rows. length (rows ! i) = (if 2 * i + 1 < length rest then 2 else 1)"
    "map snd (concat rows) = map (\<lambda>c. ''crypto:'' @ coin_id c) rest"
    by auto
  let ?rows = "[(la, ''crypto:'' @ coin_id a), (lb, ''crypto:'' @ coin_id b)] # rows"
  have "keyboard_rows str (a # b # rest) = Inr ?rows"
    using a b rows(1) by simp
  moreover have "length ?rows = (length (a # b # rest) + 1) div 2"
    using rows(2) by simp
  moreover have "\<forall>i<length ?rows. length (?rows ! i) = (if 2 * i + 1 < length (a # b # rest) then 2 else 1)"
  proof (intro allI impI)
    fix i assume "i < length ?rows"
    then show "length (?rows ! i) = (if 2 * i + 1 < length (a # b # rest) then 2 else 1)"
      using rows(3) by (cases i) auto
  qed
  moreover have "map snd (concat ?rows) = map (\<lambda>c. ''crypto:'' @ coin_id c) (a # b # rest)"
    using rows(4) by simp
  ultimately show ?case by blast
qed

text \<open>
  C8. For a list of \<open>n\<close> coins, \<open>show_crypto_list\<close> sends the title with a keyboard of
  \<open>(n + 1) div 2\<close> coin rows, two buttons in every row but one in the last row of an odd
  \<open>n\<close>, the buttons carrying the tokens \<open>crypto:<id>\<close> of the coins in their order,
  followed by one row with the single button back to the main menu, whose token is
  \<open>main_menu\<close>. For the empty list the keyboard is that one button.
\<close>

theorem coin_list_layout:
  assumes "list_all is_coin_summary coins"
  shows "(\<exists>rows.
            show_crypto_list str u (JArr coins) title
              = Inr (send u title (rows @ [[back_button]]))
          \<and> length rows = (length coins + 1) div 2
          \<and> (\<forall>i<length rows. length (rows ! i) = (if 2 * i + 1 < length coins then 2 else 1))
          \<and> map snd (concat rows) = map (\<lambda>c. ''crypto:'' @ coin_id c) coins)
       \<and> snd back_button = ''main_menu''
       \<and> show_crypto_list str u (JArr []) title = Inr (send u title [[back_button]])"
proof -
  obtain rows where rows: "keyboard_rows str coins = Inr rows"
    "length rows = (length coins + 1) div 2"
    "\<forall>i<length rows. length (rows ! i) = (if 2 * i + 1 < length coins then 2 else 1)"
    "map snd (concat rows) = map (\<lambda>c. ''crypto:'' @ coin_id c) coins"
    using keyboard_rows_layout [OF assms, of str] by auto
  have "show_crypto_list str u (JArr coins) title = Inr (send u title (rows @ [[back_button]]))"
    using rows(1) by (simp add: show_crypto_list_def)
  moreover have "show_crypto_list str u (JArr []) title = Inr (send u title [[back_button]])"
    by (simp add: show_crypto_list_def)
  ultimately show ?thesis
    using rows(2,3,4) by (auto simp: back_button_def)
qed

theorem coin_list_layout_witness:
  "list_all is_coin_summary [bitcoin, ethereum, bitcoin]
   \<and> show_crypto_list (\<lambda>_. '''') (CallbackQuery ''top100'') (JArr [bitcoin, ethereum, bitcoin])
         ''Top 100 Cryptocurrencies:'' =
       Inr (EditMessage ''Top 100 Cryptocurrencies:''
         (Some [[(''Bitcoin (BTC)'', ''crypto:bitcoin''), (''Ethereum (ETH)'', ''crypto:ethereum'')],
                [(''Bitcoin (BTC)'', ''crypto:bitcoin'')],
                [(''Back to Main Menu'', ''main_menu'')]]))
   \<and> show_crypto_list (\<lambda>_. '''') (CallbackQuery ''top100'') (JArr [])
         ''Top 100 Cryptocurrencies:'' =
       Inr (EditMessage ''Top 100 Cryptocurrencies:'' (Some [[(''Back to Main Menu'', ''main_menu'')]]))"
  using coin_list_layout [of "[bitcoin, ethereum, bitcoin]" "\<lambda>_. ''''" "CallbackQuery ''top100''"
      "''Top 100 Cryptocurrencies:''"]
  by (simp add: is_coin_summary_def string_or_absent_def bitcoin_def ethereum_def
      back_button_def render_eval case_eval)

section \<open>The detail message\<close>

lemma below_not_above:
  assumes "below_zero v"
  shows "\<not> above_zero v"
proof (cases v)
  case (JFloat x)
  then show ?thesis using assms by (cases x) auto
qed (use assms in auto)

lemma equal_not_above_below:
  assumes "equal_zero v"
  shows "\<not> above_zero v \<and> \<not> below_zero v"
proof (cases v)
  case (JFloat x)
  then show ?thesis using assms by (cases x) auto
qed (use assms in auto)

text \<open>
  C1, as the code has it. For a supported currency and details that hold, for the price,
  the 24h change and the market cap, numbers that the format code \<open>f\<close> accepts (any float,
  any integer that converts to a float), \<open>show_crypto_details\<close> builds a message in which
  the upper-case currency code occurs exactly three times (in the heading after the
  coin's name, in the price line and in the market-cap line), and whose change line shows
  the up glyph for a change above 0, the down glyph for a change below 0 and the flat
  glyph for a change of exactly 0.
\<close>

theorem detail_message_code_and_glyph:
  assumes "c \<in> set SUPPORTED_CURRENCIES"
    and "map_of kvs c = Some price" and "formattable price"
    and "map_of kvs (c @ ''_24h_change'') = Some change" and "formattable change"
    and "map_of kvs (c @ ''_market_cap'') = Some cap" and "formattable cap"
  shows "\<exists>msg. details_message crypto_id c (JObj kvs) = Inr msg
       \<and> count_sub (upper c) msg = 3
       \<and> (above_zero change \<longrightarrow> contains msg (''24h Change: '' @ glyph_up @ '' ''))
       \<and> (below_zero change \<longrightarrow> contains msg (''24h Change: '' @ glyph_down @ '' ''))
       \<and> (equal_zero change \<longrightarrow> contains msg (''24h Change: '' @ glyph_flat @ '' ''))"
proof -
  let ?g = "if above_zero change then glyph_up
            else if below_zero change then glyph_down else glyph_flat"
  obtain p a m where chars: "set p \<inter> set uppercase = {}" "set a \<inter> set uppercase = {}"
      "set m \<inter> set uppercase = {}"
    and msg: "details_message crypto_id c (JObj kvs) =
       Inr (money_bag @ '' '' @ capitalize crypto_id @ '' ('' @ upper c @ '')\<newline>''
            @ ''Price: '' @ p @ '' '' @ upper c @ ''\<newline>''
            @ ''24h Change: '' @ ?g
            @ '' '' @ a @ ''%\<newline>''
            @ ''Market Cap: '' @ m @ '' '' @ upper c)"
    using details_message_numbers [OF assms(2-7), of crypto_id] by blast
  let ?head = "money_bag @ '' '' @ capitalize crypto_id @ '' ('' @ upper c @ '')\<newline>''
          @ ''Price: '' @ p @ '' '' @ upper c @ ''\<newline>''"
  let ?tail = "a @ ''%\<newline>'' @ ''Market Cap: '' @ m @ '' '' @ upper c"
  let ?msg = "money_bag @ '' '' @ capitalize crypto_id @ '' ('' @ upper c @ '')\<newline>''
            @ ''Price: '' @ p @ '' '' @ upper c @ ''\<newline>''
            @ ''24h Change: '' @ ?g
            @ '' '' @ a @ ''%\<newline>''
            @ ''Market Cap: '' @ m @ '' '' @ upper c"
  note code = supported_upper [OF assms(1)]
  have "?g \<in> {glyph_up, glyph_down, glyph_flat}" by simp
  then have three: "count_sub (upper c) ?msg = 3"
    using count_sub_no_upper [OF code chars(1)] count_sub_no_upper [OF code chars(2)]
      count_sub_no_upper [OF code chars(3)]
    by (rule count_code [OF code])
  have eq: "?msg = ?head @ (''24h Change: '' @ ?g @ '' '') @ ?tail" by simp
  have line: "contains ?msg (''24h Change: '' @ ?g @ '' '')"
    unfolding contains_def by (subst eq) (rule count_sub_middle)
  have up: "contains ?msg (''24h Change: '' @ glyph_up @ '' '')" if az: "above_zero change"
    using line unfolding if_P [OF az] .
  have down: "contains ?msg (''24h Change: '' @ glyph_down @ '' '')" if bz: "below_zero change"
    using line unfolding if_not_P [OF below_not_above [OF bz]] if_P [OF bz] .
  have flat: "contains ?msg (''24h Change: '' @ glyph_flat @ '' '')" if ez: "equal_zero change"
    using line
    unfolding if_not_P [OF conjunct1 [OF equal_not_above_below [OF ez]]]
      if_not_P [OF conjunct2 [OF equal_not_above_below [OF ez]]] .
  show ?thesis
    using msg three up down flat by blast
qed

theorem detail_message_code_and_glyph_witness:
  "''usd'' \<in> set SUPPORTED_CURRENCIES
   \<and> map_of bitcoin_usd ''usd'' = Some (JFloat (Finite (130001 / 2)))
   \<and> formattable (JFloat (Finite (130001 / 2)))
   \<and> map_of bitcoin_usd (''usd'' @ ''_24h_change'')
       = Some (JFloat (Finite (- 2589569785738035 / 1125899906842624)))
   \<and> formattable (JFloat (Finite (- 2589569785738035 / 1125899906842624)))
   \<and> map_of bitcoin_usd (''usd'' @ ''_market_cap'') = Some (JInt 1280000000000)
   \<and> formattable (JInt 1280000000000)
   \<and> below_zero (JFloat (Finite (- 2589569785738035 / 1125899906842624)))
   \<and> (\<exists>msg. details_message ''bitcoin'' ''usd'' (JObj bitcoin_usd) = Inr msg
         \<and> count_sub (upper ''usd'') msg = 3
         \<and> contains msg (''24h Change: '' @ glyph_down @ '' ''))
   \<and> above_zero (JInt 1)
   \<and> (\<exists>msg. details_message ''ethereum'' ''eur'' (JObj rising_eur) = Inr msg
         \<and> count_sub (upper ''eur'') msg = 3
         \<and> contains msg (''24h Change: '' @ glyph_up @ '' ''))
   \<and> equal_zero (JFloat NegZero)
   \<and> (\<exists>msg. details_message ''tether'' ''inr'' (JObj steady_inr) = Inr msg
         \<and> count_sub (upper ''inr'') msg = 3
         \<and> contains msg (''24h Change: '' @ glyph_flat @ '' ''))"
  using detail_message_code_and_glyph [of "''usd''" bitcoin_usd "JFloat (Finite (130001 / 2))"
      "JFloat (Finite (- 2589569785738035 / 1125899906842624))" "JInt 1280000000000" "''bitcoin''"]
    detail_message_code_and_glyph [of "''eur''" rising_eur "JInt 2" "JInt 1"
      "JFloat PosInf" "''ethereum''"]
    detail_message_code_and_glyph [of "''inr''" steady_inr "JFloat (Finite 1)" "JFloat NegZero"
      "JInt 0" "''tether''"]
  by (simp add: SUPPORTED_CURRENCIES_def bitcoin_usd_def rising_eur_def steady_inr_def)

text \<open>
  The message for Bitcoin in US dollars at a price of 65000.5, a change of -2.3 and a
  market cap of 1280000000000: \<open>USD\<close> occurs in it three times, not twice. With a market
  cap of \<open>2 * 10 ^ 308\<close>, an integer no float holds, the format of the market cap raises
  an \<open>OverflowError\<close> and there is no message.
\<close>

theorem currency_code_twice_counterexample:
  "details_message ''bitcoin'' ''usd'' (JObj bitcoin_usd) =
     Inr (money_bag @ '' Bitcoin (USD)\<newline>Price: 65,000.50 USD\<newline>24h Change: ''
          @ glyph_down @ '' 2.30%\<newline>Market Cap: 1,280,000,000,000 USD'')
   \<and> count_sub (upper ''usd'')
         (money_bag @ '' Bitcoin (USD)\<newline>Price: 65,000.50 USD\<newline>24h Change: ''
          @ glyph_down @ '' 2.30%\<newline>Market Cap: 1,280,000,000,000 USD'') = 3
   \<and> details_message ''bitcoin'' ''usd''
        (JObj [(''usd'', JFloat (Finite (130001 / 2))),
               (''usd_24h_change'', JFloat (Finite (- 2589569785738035 / 1125899906842624))),
               (''usd_market_cap'', JInt (2 * 10 ^ 308))]) = Inl OverflowError"
proof -
  have "details_message ''bitcoin'' ''usd''
        (JObj [(''usd'', JFloat (Finite (130001 / 2))),
               (''usd_24h_change'', JFloat (Finite (- 2589569785738035 / 1125899906842624))),
               (''usd_market_cap'', JInt (2 * 10 ^ 308))]) = Inl OverflowError"
    by (simp add: details_message_def change_symbol_def int_to_float_overflow)
  moreover have "details_message ''bitcoin'' ''usd'' (JObj bitcoin_usd) =
     Inr (money_bag @ '' Bitcoin (USD)\<newline>Price: 65,000.50 USD\<newline>24h Change: ''
          @ glyph_down @ '' 2.30%\<newline>Market Cap: 1,280,000,000,000 USD'')"
    by (simp add: bitcoin_usd_def render_eval format_eval case_eval)
  moreover have "count_sub (upper ''usd'')
         (money_bag @ '' Bitcoin (USD)\<newline>Price: 65,000.50 USD\<newline>24h Change: ''
          @ glyph_down @ '' 2.30%\<newline>Market Cap: 1,280,000,000,000 USD'') = 3"
    by (simp add: case_eval money_bag_def glyph_down_def)
  ultimately show ?thesis by simp
qed

text \<open>
  Details that are not empty and lack one of the three entries never give a message: the
  default \<open>'N/A'\<close> that stands for the absent entry is a string, and the comparison with
  0 or the number format raises on it.
\<close>

lemma absent_entry_raises:
  assumes "kvs \<noteq> []"
    and "map_of kvs c = None \<or> map_of kvs (c @ ''_24h_change'') = None
         \<or> map_of kvs (c @ ''_market_cap'') = None"
  shows "\<exists>x. details_message crypto_id c (JObj kvs) = Inl x"
proof (cases "change_symbol (case map_of kvs (c @ ''_24h_change'') of
                  Some v \<Rightarrow> v | None \<Rightarrow> JStr ''N/A'')")
  case (Inl x)
  then show ?thesis using assms(1) by (simp add: details_message_def)
next
  case (Inr g)
  then obtain ch where ch: "map_of kvs (c @ ''_24h_change'') = Some ch"
    by (cases "map_of kvs (c @ ''_24h_change'')") (auto simp: change_symbol_def)
  show ?thesis
  proof (cases "map_of kvs c")
    case None
    then show ?thesis using assms(1) ch Inr by (simp add: details_message_def)
  next
    case (Some p)
    then have cap: "map_of kvs (c @ ''_market_cap'') = None"
      using assms(2) ch by simp
    show ?thesis
      using assms(1) ch Inr Some cap
      by (cases "format_f 2 p"; cases "format_abs ch") (simp_all add: details_message_def)
  qed
qed

text \<open>
  C3 fails on the code. Details with a price and a market cap and no 24h change: the
  change defaults to the string \<open>'N/A'\<close>, \<open>'N/A' > 0\<close> raises a \<open>TypeError\<close>, and no message
  is built.
\<close>

theorem absent_field_raises:
  "details_message ''bitcoin'' ''usd''
     (JObj [(''usd'', JFloat (Finite (130001 / 2))), (''usd_market_cap'', JInt 1280000000000)])
   = Inl TypeError"
  by (simp add: render_eval)

section \<open>The price data client\<close>

lemma get_top_cryptos_fails:
  "request_fails (markets e limit) \<Longrightarrow> get_top_cryptos e limit = Inr (JArr [])"
  by (cases "markets e limit" rule: request_fails.cases) (auto simp: client_eval)

lemma get_trending_cryptos_fails:
  "request_fails (trending e) \<Longrightarrow> get_trending_cryptos e = Inr (JArr [])"
  by (cases "trending e" rule: request_fails.cases) (auto simp: client_eval)

lemma get_crypto_details_fails:
  "request_fails (simple_price e crypto_id currency) \<Longrightarrow>
   get_crypto_details e crypto_id currency = Inr (JObj [])"
  by (cases "simple_price e crypto_id currency" rule: request_fails.cases) (auto simp: client_eval)

lemma get_crypto_details_unknown:
  "simple_price e crypto_id currency = Response st (Json (JObj kvs)) \<Longrightarrow>
   \<not> (400 \<le> st \<and> st < 600) \<Longrightarrow> map_of kvs crypto_id = None \<Longrightarrow>
   get_crypto_details e crypto_id currency = Inr (JObj [])"
  by (simp add: client_eval)

text \<open>
  C6, as the code has it. When the detail lookup gives empty details, \<open>show_crypto_details\<close>
  sends \<open>Sorry, I couldn't find the details for <id>.\<close>: a text that is fixed but for the
  coin id it names, and that does not depend on the currency. A lookup that failed (the
  request raised, an error status, a body on which \<open>Response.json()\<close> raises a
  \<open>RequestException\<close>) and a lookup whose response does not hold the coin id give the
  same message.
\<close>

theorem not_found_message:
  assumes "request_fails (simple_price e1 crypto_id currency)"
    and "simple_price e2 crypto_id currency = Response 200 (Json (JObj kvs))"
    and "map_of kvs crypto_id = None"
  shows "details_message crypto_id currency (JObj []) =
           Inr (''Sorry, I couldn't find the details for '' @ crypto_id @ ''.'')
       \<and> show_crypto_details e1 crypto_id currency =
           Inr (EditMessage (''Sorry, I couldn't find the details for '' @ crypto_id @ ''.'')
                  (Some [[back_button]]))
       \<and> show_crypto_details e2 crypto_id currency = show_crypto_details e1 crypto_id currency"
  using get_crypto_details_fails [OF assms(1)]
    get_crypto_details_unknown [OF assms(2) _ assms(3)]
  by (simp add: show_crypto_details_def details_message_def)

theorem not_found_message_witness:
  "request_fails (simple_price offline ''dogecoin'' ''eur'')
   \<and> simple_price scenario ''dogecoin'' ''eur''
       = Response 200 (Json (JObj [(''bitcoin'', JObj bitcoin_usd)]))
   \<and> map_of [(''bitcoin'', JObj bitcoin_usd)] ''dogecoin'' = None
   \<and> show_crypto_details offline ''dogecoin'' ''eur'' =
        Inr (EditMessage ''Sorry, I couldn't find the details for dogecoin.''
               (Some [[back_button]]))
   \<and> show_crypto_details scenario ''dogecoin'' ''eur''
       = show_crypto_details offline ''dogecoin'' ''eur''"
  using not_found_message [of offline "''dogecoin''" "''eur''" scenario
      "[(''bitcoin'', JObj bitcoin_usd)]"]
  by (simp add: offline_def scenario_def)

text \<open>The message names the coin: it is not the same for two coin ids.\<close>

theorem not_found_fixed_counterexample:
  "details_message ''bitcoin'' ''usd'' (JObj []) \<noteq> details_message ''ethereum'' ''usd'' (JObj [])"
  by (simp add: details_message_def)

text \<open>
  An exception of \<open>Response.json()\<close> that is not a \<open>RequestException\<close> passes through
  the \<open>except\<close> clause of the API functions.
\<close>

lemma undecodable_body_propagates:
  assumes "\<not> is_request_exception x" and "\<not> (400 \<le> st \<and> st < 600)"
  shows "(markets e limit = Response st (Undecodable x) \<longrightarrow> get_top_cryptos e limit = Inl x)
       \<and> (trending e = Response st (Undecodable x) \<longrightarrow> get_trending_cryptos e = Inl x)
       \<and> (simple_price e crypto_id currency = Response st (Undecodable x) \<longrightarrow>
            get_crypto_details e crypto_id currency = Inl x)"
  using assms by (auto simp: client_eval)

text \<open>
  The three API functions check the status: a response with an error status, whatever its
  body, gives their empty result.
\<close>

lemma api_functions_check_status:
  assumes "400 \<le> st" and "st < 600"
  shows "(markets e limit = Response st b \<longrightarrow> get_top_cryptos e limit = Inr (JArr []))
       \<and> (trending e = Response st b \<longrightarrow> get_trending_cryptos e = Inr (JArr []))
       \<and> (simple_price e crypto_id currency = Response st b \<longrightarrow>
            get_crypto_details e crypto_id currency = Inr (JObj []))"
  using assms by (simp add: client_eval)

text \<open>
  C4 fails on the code. The search of \<open>handle_message\<close> sends its request without the
  status check that the three API functions make. A search answered with status 500 and
  a body that lists a coin: \<open>handle_message\<close> shows the coin as a search result and returns
  \<open>CHOOSING_CRYPTO\<close>, where \<open>get_top_cryptos\<close> answers the same response with the empty
  list.
\<close>

theorem search_ignores_error_status:
  "search error_status (lower ''Bitcoin'')
     = Response 500 (Json (JObj [(''coins'', JArr [bitcoin])]))
   \<and> handle_message error_status Map.empty ''Bitcoin'' =
       ([ReplyText ''Search Results:''
           (Some [[(''Bitcoin (BTC)'', ''crypto:bitcoin'')], [back_button]])],
        Map.empty, Inr (Some CHOOSING_CRYPTO))
   \<and> get_top_cryptos
         (error_status\<lparr>markets := \<lambda>_. Response 500 (Json (JObj [(''coins'', JArr [bitcoin])]))\<rparr>)
         100 = Inr (JArr [])"
  by (simp add: handle_message_def error_status_def scenario_def bitcoin_def
      client_eval render_eval case_eval)

section \<open>The conversation's transitions\<close>

text \<open>
  C2, as the code has it. The start command, in any state, sends the main menu and moves
  the conversation to \<open>MAIN_MENU\<close>; it leaves the user data as it was, so a currency
  selection that follows without a new choice of coin looks up the coin id stored before
  the start command (or \<open>bitcoin\<close> when none was stored).
\<close>

theorem start_keeps_coin_id:
  "step e s (Command ''start'') =
     (\<lparr>state = Some MAIN_MENU, user_data = user_data s\<rparr>,
      [show_main_menu (Message ''/start'')], None)
   \<and> button_click e' (user_data (fst (step e s (Command ''start'')))) (''currency:'' @ code) =
     (case show_crypto_details e'
             (case user_data s ''crypto'' of Some c \<Rightarrow> c | None \<Rightarrow> ''bitcoin'')
             (takeWhile (\<lambda>c. c \<noteq> CHR '':'') code) of
        Inl x \<Rightarrow> ([Answer], user_data s, Inl x)
      | Inr a \<Rightarrow> ([Answer, a], user_data s, Inr (Some MAIN_MENU)))"
proof -
  have a: "step e s (Command ''start'') =
     (\<lparr>state = Some MAIN_MENU, user_data = user_data s\<rparr>,
      [show_main_menu (Message ''/start'')], None)"
    by (simp add: start_def after_def)
  show ?thesis
    unfolding a button_click_currency by (simp split: sum.splits)
qed

text \<open>
  A session that stores \<open>ethereum\<close> still stores it after the start command, and the
  currency selection that follows looks up \<open>ethereum\<close>.
\<close>

theorem start_clears_coin_id_counterexample:
  "user_data
     (fst (step offline
             \<lparr>state = Some CHOOSING_CURRENCY, user_data = [''crypto'' \<mapsto> ''ethereum'']\<rparr>
             (Command ''start'')))
     ''crypto'' = Some ''ethereum''
   \<and> fst (snd (step offline
        (fst (step offline
                \<lparr>state = Some CHOOSING_CURRENCY, user_data = [''crypto'' \<mapsto> ''ethereum'']\<rparr>
                (Command ''start'')))
        (Callback ''currency:usd'')))
     = [Answer,
        EditMessage ''Sorry, I couldn't find the details for ethereum.'' (Some [[back_button]])]"
  using button_click_currency [of offline "[''crypto'' \<mapsto> ''ethereum'']" "''usd''"]
  by (simp add: start_def after_def offline_def client_eval show_crypto_details_def
      details_message_def)

text \<open>
  From \<open>MAIN_MENU\<close>, the selections \<open>top100\<close>, \<open>crypto:<id>\<close> and \<open>currency:<code>\<close> pass
  through \<open>CHOOSING_CRYPTO\<close> and \<open>CHOOSING_CURRENCY\<close> back to \<open>MAIN_MENU\<close> whenever the coin
  list and the details can be shown.
\<close>

lemma three_transitions:
  assumes "andthen (get_top_cryptos e1 100) (\<lambda>cryptos.
             show_crypto_list (py_str e1) (CallbackQuery ''top100'') cryptos
               ''Top 100 Cryptocurrencies:'') = Inr a1"
    and "show_crypto_details e3 (takeWhile (\<lambda>c. c \<noteq> CHR '':'') coin)
           (takeWhile (\<lambda>c. c \<noteq> CHR '':'') code) = Inr a3"
  shows "state (fst (step e1 \<lparr>state = Some MAIN_MENU, user_data = ud\<rparr> (Callback ''top100'')))
           = Some CHOOSING_CRYPTO"
    and "state (fst (step e2 (fst (step e1 \<lparr>state = Some MAIN_MENU, user_data = ud\<rparr>
                                     (Callback ''top100'')))
                       (Callback (''crypto:'' @ coin))))
           = Some CHOOSING_CURRENCY"
    and "state (fst (step e3 (fst (step e2 (fst (step e1 \<lparr>state = Some MAIN_MENU, user_data = ud\<rparr>
                                                      (Callback ''top100'')))
                                        (Callback (''crypto:'' @ coin))))
                       (Callback (''currency:'' @ code))))
           = Some MAIN_MENU"
proof -
  have s1: "fst (step e1 \<lparr>state = Some MAIN_MENU, user_data = ud\<rparr> (Callback ''top100''))
          = \<lparr>state = Some CHOOSING_CRYPTO, user_data = ud\<rparr>"
    using assms(1) by (simp add: button_click_def after_def)
  have s2: "fst (step e2 \<lparr>state = Some CHOOSING_CRYPTO, user_data = ud\<rparr>
                   (Callback (''crypto:'' @ coin)))
          = \<lparr>state = Some CHOOSING_CURRENCY,
             user_data = ud(''crypto'' \<mapsto> takeWhile (\<lambda>c. c \<noteq> CHR '':'') coin)\<rparr>"
    unfolding step.simps button_click_crypto by (simp add: after_def)
  have s3: "fst (step e3 \<lparr>state = Some CHOOSING_CURRENCY,
                   user_data = ud(''crypto'' \<mapsto> takeWhile (\<lambda>c. c \<noteq> CHR '':'') coin)\<rparr>
                   (Callback (''currency:'' @ code)))
          = \<lparr>state = Some MAIN_MENU,
             user_data = ud(''crypto'' \<mapsto> takeWhile (\<lambda>c. c \<noteq> CHR '':'') coin)\<rparr>"
    unfolding step.simps button_click_currency using assms(2) by (simp add: after_def)
  show "state (fst (step e1 \<lparr>state = Some MAIN_MENU, user_data = ud\<rparr> (Callback ''top100'')))
           = Some CHOOSING_CRYPTO"
    unfolding s1 by simp
  show "state (fst (step e2 (fst (step e1 \<lparr>state = Some MAIN_MENU, user_data = ud\<rparr>
                                     (Callback ''top100'')))
                       (Callback (''crypto:'' @ coin))))
           = Some CHOOSING_CURRENCY"
    unfolding s1 s2 by simp
  show "state (fst (step e3 (fst (step e2 (fst (step e1 \<lparr>state = Some MAIN_MENU, user_data = ud\<rparr>
                                                      (Callback ''top100'')))
                                        (Callback (''crypto:'' @ coin))))
                       (Callback (''currency:'' @ code))))
           = Some MAIN_MENU"
    unfolding s1 s2 s3 by simp
qed

text \<open>
  C5 fails on the code. The price lookup of the third selection answers without the 24h
  change: the first two selections lead through \<open>CHOOSING_CRYPTO\<close> to \<open>CHOOSING_CURRENCY\<close>,
  the third raises a \<open>TypeError\<close> while the message is built, \<open>button_click\<close> returns no
  state, and the conversation stays in \<open>CHOOSING_CURRENCY\<close>.
\<close>

theorem partial_detail_blocks_transition:
  "step scenario \<lparr>state = Some MAIN_MENU, user_data = Map.empty\<rparr> (Callback ''top100'') =
     (\<lparr>state = Some CHOOSING_CRYPTO, user_data = Map.empty\<rparr>,
      [Answer, EditMessage ''Fetching top cryptocurrencies, please wait...'' None,
       EditMessage ''Top 100 Cryptocurrencies:''
         (Some [[(''Bitcoin (BTC)'', ''crypto:bitcoin''), (''Ethereum (ETH)'', ''crypto:ethereum'')],
                [back_button]])], None)
   \<and> step scenario \<lparr>state = Some CHOOSING_CRYPTO, user_data = Map.empty\<rparr>
         (Callback ''crypto:bitcoin'') =
     (\<lparr>state = Some CHOOSING_CURRENCY, user_data = [''crypto'' \<mapsto> ''bitcoin'']\<rparr>,
      [Answer, show_currency_options], None)
   \<and> step no_change \<lparr>state = Some CHOOSING_CURRENCY, user_data = [''crypto'' \<mapsto> ''bitcoin'']\<rparr>
         (Callback ''currency:usd'') =
     (\<lparr>state = Some CHOOSING_CURRENCY, user_data = [''crypto'' \<mapsto> ''bitcoin'']\<rparr>,
      [Answer], Some TypeError)"
  using button_click_crypto [of scenario Map.empty "''bitcoin''"]
    button_click_currency [of no_change "[''crypto'' \<mapsto> ''bitcoin'']" "''usd''"]
  by (simp add: after_def button_click_def scenario_def no_change_def bitcoin_def ethereum_def
      client_eval render_eval case_eval)

text \<open>
  C7 fails on the code. A \<open>currency:usd\<close> selection in a session that holds no coin id
  makes the lookup for \<open>bitcoin\<close>, as the claim says; the lookup answers without the 24h
  change, building the message raises a \<open>TypeError\<close>, \<open>button_click\<close> returns no state,
  and the conversation stays in \<open>CHOOSING_CURRENCY\<close> instead of moving to \<open>MAIN_MENU\<close>.
\<close>

theorem default_coin_transition_fails:
  "simple_price no_change ''bitcoin'' ''usd'' =
     Response 200 (Json (JObj [(''bitcoin'',
        JObj [(''usd'', JFloat (Finite (130001 / 2))),
              (''usd_market_cap'', JInt 1280000000000)])]))
   \<and> button_click no_change Map.empty ''currency:usd'' = ([Answer], Map.empty, Inl TypeError)
   \<and> step no_change \<lparr>state = Some CHOOSING_CURRENCY, user_data = Map.empty\<rparr>
         (Callback ''currency:usd'') =
     (\<lparr>state = Some CHOOSING_CURRENCY, user_data = Map.empty\<rparr>, [Answer], Some TypeError)"
  using button_click_currency [of no_change Map.empty "''usd''"]
  by (simp add: after_def scenario_def no_change_def client_eval render_eval)

end
